theory Spec2Isabelle
  imports Main
begin

section \<open>lensm: the command line, the start-up sequence and the UI state of main.go\<close>

text \<open>
  The development follows \<^verbatim>\<open>main.go\<close>. Go's \<^verbatim>\<open>int\<close> values (flag values, indices) are
  modelled as \<^typ>\<open>int\<close>: the file compares and stores them but never does arithmetic that
  could wrap. A Go \<^verbatim>\<open>error\<close> is a value of the type parameter \<open>'e\<close>; a panic is a value
  on the left of a sum. Functions of the standard library, of Gio and of the other files of
  the package are fields of an environment record.
\<close>

subsection \<open>Flags\<close>

text \<open>
  The state of the flag set: a flag that has not been set is \<open>None\<close> (its default
  applies), \<open>args\<close> are the arguments that remain after the flags.
\<close>

record CommandLine =
  flag_text_size :: "int option"
  flag_filter :: "string option"
  flag_context :: "int option"
  flag_font :: "string option"
  flag_max_matches :: "int option"
  args :: "string list"

definition flag_Int :: "int option \<Rightarrow> int \<Rightarrow> int" where
  "flag_Int given dflt = (case given of None \<Rightarrow> dflt | Some v \<Rightarrow> v)"

definition flag_String :: "string option \<Rightarrow> string \<Rightarrow> string" where
  "flag_String given dflt = (case given of None \<Rightarrow> dflt | Some v \<Rightarrow> v)"

text \<open>\<^verbatim>\<open>flag.Arg(i)\<close> is the empty string when the argument does not exist.\<close>

definition flag_Arg :: "string list \<Rightarrow> int \<Rightarrow> string" where
  "flag_Arg as i = (if 0 \<le> i \<and> nat i < length as then as ! nat i else [])"

subsection \<open>flag.Parse\<close>

text \<open>
  \<^verbatim>\<open>flag.Parse()\<close> parses \<^verbatim>\<open>os.Args[1:]\<close> against the five flags main defines, none of
  them boolean. The model follows \<^verbatim>\<open>FlagSet.parseOne\<close> of Go's flag package: an argument
  shorter than two bytes or not starting with \<^verbatim>\<open>-\<close> ends the flags and stays with the
  positional arguments, \<^verbatim>\<open>--\<close> ends the flags and is dropped; a flag is \<^verbatim>\<open>-name\<close> or
  \<^verbatim>\<open>--name\<close>, its value follows an \<^verbatim>\<open>=\<close> (not the first byte of the name) or is the next
  argument. An undefined \<^verbatim>\<open>-h\<close> or \<^verbatim>\<open>-help\<close> is \<^verbatim>\<open>flag.ErrHelp\<close>.
\<close>

datatype flag_error =
    ErrHelp
  | Bad_flag_syntax string
  | Flag_not_defined string
  | Flag_needs_argument string
  | Invalid_value string string

definition flag_names :: "string list" where
  "flag_names = [''text-size'', ''filter'', ''context'', ''font'', ''max-matches'']"

definition flag_split :: "string \<Rightarrow> string \<times> string option" where
  "flag_split name =
     (case name of
        [] \<Rightarrow> ([], None)
      | c # cs \<Rightarrow>
         if CHR ''='' \<in> set cs
         then (c # takeWhile (\<lambda>x. x \<noteq> CHR ''='') cs,
               Some (tl (dropWhile (\<lambda>x. x \<noteq> CHR ''='') cs)))
         else (name, None))"

text \<open>
  \<^verbatim>\<open>Value.Set\<close> of a defined flag: the string flags take any value, the int flags what
  \<^verbatim>\<open>strconv.ParseInt\<close> (the parameter \<open>ParseInt\<close>) accepts.
\<close>

definition flag_Set ::
  "(string \<Rightarrow> 'e + int) \<Rightarrow> CommandLine \<Rightarrow> string \<Rightarrow> string \<Rightarrow> flag_error + CommandLine" where
  "flag_Set ParseInt f name v =
     (if name = ''filter'' then Inr (f\<lparr>flag_filter := Some v\<rparr>)
      else if name = ''font'' then Inr (f\<lparr>flag_font := Some v\<rparr>)
      else
        (case ParseInt v of
           Inl err \<Rightarrow> Inl (Invalid_value v name)
         | Inr n \<Rightarrow>
            if name = ''text-size'' then Inr (f\<lparr>flag_text_size := Some n\<rparr>)
            else if name = ''context'' then Inr (f\<lparr>flag_context := Some n\<rparr>)
            else Inr (f\<lparr>flag_max_matches := Some n\<rparr>)))"

fun parse_flags ::
  "(string \<Rightarrow> 'e + int) \<Rightarrow> CommandLine \<Rightarrow> string list \<Rightarrow> flag_error + CommandLine" where
  "parse_flags ParseInt f [] = Inr (f\<lparr>args := []\<rparr>)"
| "parse_flags ParseInt f (s # rest) =
     (if length s < 2 \<or> hd s \<noteq> CHR ''-'' then Inr (f\<lparr>args := s # rest\<rparr>)
      else if s = ''--'' then Inr (f\<lparr>args := rest\<rparr>)
      else
        (let name = (if hd (tl s) = CHR ''-'' then tl (tl s) else tl s) in
         if name = [] \<or> hd name = CHR ''-'' \<or> hd name = CHR ''='' then Inl (Bad_flag_syntax s)
         else
           (let name_value = flag_split name; name = fst name_value in
            if name \<notin> set flag_names then
              (if name = ''help'' \<or> name = ''h'' then Inl ErrHelp
               else Inl (Flag_not_defined name))
            else
              (case snd name_value of
                 Some v \<Rightarrow>
                   (case flag_Set ParseInt f name v of
                      Inl err \<Rightarrow> Inl err
                    | Inr f' \<Rightarrow> parse_flags ParseInt f' rest)
               | None \<Rightarrow>
                   (case rest of
                      [] \<Rightarrow> Inl (Flag_needs_argument name)
                    | v # rest' \<Rightarrow>
                       (case flag_Set ParseInt f name v of
                          Inl err \<Rightarrow> Inl err
                        | Inr f' \<Rightarrow> parse_flags ParseInt f' rest'))))))"

text \<open>
  An argument names a flag when, read the way \<open>parse_flags\<close> reads a flag, it is
  \<^verbatim>\<open>-name\<close>, \<^verbatim>\<open>--name\<close>, \<^verbatim>\<open>-name=value\<close> or \<^verbatim>\<open>--name=value\<close>. A flag that no argument
  names is omitted.
\<close>

definition names_flag :: "string \<Rightarrow> string \<Rightarrow> bool" where
  "names_flag name a =
     (2 \<le> length a \<and> hd a = CHR ''-''
      \<and> fst (flag_split (if hd (tl a) = CHR ''-'' then tl (tl a) else tl a)) = name)"

text \<open>Before \<^verbatim>\<open>flag.Parse\<close> no flag is set.\<close>

definition flags_unset :: CommandLine where
  "flags_unset =
     \<lparr>flag_text_size = None, flag_filter = None, flag_context = None, flag_font = None,
      flag_max_matches = None, args = []\<rparr>"

definition flag_Parse :: "(string \<Rightarrow> 'e + int) \<Rightarrow> string list \<Rightarrow> flag_error + CommandLine" where
  "flag_Parse ParseInt argv = parse_flags ParseInt flags_unset argv"

subsection \<open>Data handed between the matcher and the UI\<close>

record 're Options =
  Exe :: string
  Filter :: "'re"
  Context :: int
  MaxSymbols :: int

text \<open>
  \<^verbatim>\<open>Match\<close>, \<^verbatim>\<open>Output\<close> and \<^verbatim>\<open>Executable\<close> are declared in other files; main.go reads
  \<^verbatim>\<open>Match.Name\<close>, \<^verbatim>\<open>Output.Matches\<close> and \<^verbatim>\<open>Executable.Syms\<close>. The remaining fields of a
  Match are the extension \<open>'m\<close> of the record.
\<close>

record Match =
  Name :: string

record 'm Output =
  Matches :: "'m Match_scheme list"

record 's Executable =
  Syms :: "'s list"

subsection \<open>Fonts and theme\<close>

datatype Weight = Normal | Medium | Bold

record Font =
  Variant :: string
  Weight :: Weight

record 'f FontFace =
  Font :: Font
  Face :: "'f"

record 'f Theme =
  Fonts :: "'f FontFace list"
  TextSize :: int

text \<open>\<^verbatim>\<open>material.NewTheme\<close>: Gio's default text size is 16.\<close>

definition NewTheme :: "'f FontFace list \<Rightarrow> 'f Theme" where
  "NewTheme faces = \<lparr>Fonts = faces, TextSize = 16\<rparr>"

subsection \<open>Panics, external calls, outcomes\<close>

text \<open>
  The values main.go passes to \<^verbatim>\<open>panic\<close>: an error as it is, or wrapped by
  \<^verbatim>\<open>fmt.Errorf("failed to parse font: %v", err)\<close>; and the run-time panics of the Go
  runtime that the UI code can raise.
\<close>

datatype 'e panic =
    Panic_error 'e
  | Failed_to_parse_font 'e

datatype runtime_error =
    Nil_dereference
  | Index_out_of_range

datatype 're call =
    Fprintln_Stderr string
  | Fprintln_flag_error flag_error
  | Call_flag_Usage
  | Call_os_Exit int
  | Call_regexp_Compile string
  | Call_Parse "'re Options"
  | Call_ParseExe string
  | Call_ReadFile string
  | Call_opentype_Parse string
  | Call_Windows_Open string
  | Call_app_Main

datatype ('e, 'u) outcome =
    Exited int
  | Panicked "'e panic"
  | Running 'u

subsection \<open>UI state\<close>

text \<open>
  \<^verbatim>\<open>SelectList\<close> and \<^verbatim>\<open>MatchUIState\<close> are declared elsewhere; the records hold the fields
  main.go reads or writes: \<^verbatim>\<open>Matches.Selected\<close>, \<^verbatim>\<open>MatchUI.asm.scroll\<close> and
  \<^verbatim>\<open>MatchUI.src.scroll\<close>. main.go only ever stores the literal 100000 in a scroll offset,
  so its numeric type is taken as \<^typ>\<open>int\<close>.
\<close>

record SelectList =
  Selected :: int

record MatchUIState =
  asm_scroll :: int
  src_scroll :: int

text \<open>
  \<^verbatim>\<open>MatchUIStyle\<close> as openInNew and layoutCode build it. \<^verbatim>\<open>Match\<close> is a pointer into
  \<^verbatim>\<open>Output.Matches\<close>, modelled as the index it points at (\<open>None\<close> is nil). TextHeight and
  LineHeight are float32 functions of \<^verbatim>\<open>Theme.TextSize\<close> and are not carried.
\<close>

record 'f MatchUIStyle =
  Theme :: "'f Theme"
  Match :: "nat option"
  MatchUIState :: MatchUIState

datatype 'f content = Run_UI | Widget_Window "'f MatchUIStyle"

record 'f Window =
  title :: string
  sizeDp :: "int \<times> int"
  run :: "'f content"

text \<open>
  \<^verbatim>\<open>Windows\<close> counts live windows in a WaitGroup and starts a goroutine per window; the model
  keeps the list of windows opened so far.
\<close>

definition Windows_Open ::
  "'f Window list \<Rightarrow> string \<Rightarrow> int \<times> int \<Rightarrow> 'f content \<Rightarrow> 'f Window list" where
  "Windows_Open windows t sz r = windows @ [\<lparr>title = t, sizeDp = sz, run = r\<rparr>]"

text \<open>
  The UI struct. \<open>Output\<close> and \<open>Exe\<close> are pointers (\<open>None\<close> is nil); \<open>Selected\<close> is a
  \<^verbatim>\<open>*Match\<close> that is nil or \<^verbatim>\<open>&ui.Output.Matches[i]\<close>, modelled as \<open>Some i\<close>;
  \<open>OpenInNew\<close> is the number of clicks the Clickable has queued.
\<close>

record ('f, 'm, 's, 'y) UI =
  Windows :: "'f Window list"
  Theme :: "'f Theme"
  Output :: "'m Output option"
  Matches :: SelectList
  Selected :: "nat option"
  MatchUI :: MatchUIState
  OpenInNew :: nat
  Exe :: "'s Executable option"
  Symbols :: "'y"

subsection \<open>The environment of main\<close>

record ('e, 're, 'f, 'm, 's, 'y) Env =
  strconv_ParseInt :: "string \<Rightarrow> 'e + int"
  regexp_Compile :: "string \<Rightarrow> 'e + 're"
  Parse :: "'re Options \<Rightarrow> 'e + 'm Output"
  ParseExe :: "string \<Rightarrow> 'e + 's Executable"
  ReadFile :: "string \<Rightarrow> 'e + string"
  opentype_Parse :: "string \<Rightarrow> 'e + 'f"
  gofont_Collection :: "'f FontFace list"
  VerticalSelectList :: "int \<Rightarrow> SelectList"
  NewSymbolList :: "'f Theme \<Rightarrow> 'y"
  SetSymbols :: "'y \<Rightarrow> 's list \<Rightarrow> 'y"

subsection \<open>fontCollection\<close>

definition fontCollection ::
  "('e, 're, 'f, 'm, 's, 'y) Env \<Rightarrow> string \<Rightarrow> ('e panic + 'f FontFace list) \<times> 're call list" where
  "fontCollection env path =
     (let collection = gofont_Collection env in
      if path = [] then (Inr collection, [])
      else
        (case ReadFile env path of
           Inl err \<Rightarrow> (Inl (Failed_to_parse_font err), [Call_ReadFile path])
         | Inr b \<Rightarrow>
            (case opentype_Parse env b of
               Inl err \<Rightarrow>
                 (Inl (Failed_to_parse_font err), [Call_ReadFile path, Call_opentype_Parse b])
             | Inr face \<Rightarrow>
                 (let fnt = \<lparr>Variant = ''Mono'', Weight = Normal\<rparr>;
                      fface = \<lparr>Font = fnt, Face = face\<rparr>
                  in (Inr (collection @ [fface]),
                      [Call_ReadFile path, Call_opentype_Parse b])))))"

subsection \<open>NewUI, SetExe\<close>

definition NewUI ::
  "('e, 're, 'f, 'm, 's, 'y) Env \<Rightarrow> 'f Window list \<Rightarrow> 'f Theme \<Rightarrow> ('f, 'm, 's, 'y) UI" where
  "NewUI env windows theme =
     \<lparr>Windows = windows,
      Theme = theme,
      Output = None,
      Matches = VerticalSelectList env (TextSize theme + 4),
      Selected = None,
      MatchUI = \<lparr>asm_scroll = 0, src_scroll = 0\<rparr>,
      OpenInNew = 0,
      Exe = None,
      Symbols = NewSymbolList env theme\<rparr>"

definition SetExe ::
  "('e, 're, 'f, 'm, 's, 'y) Env \<Rightarrow> ('f, 'm, 's, 'y) UI \<Rightarrow> 's Executable \<Rightarrow> ('f, 'm, 's, 'y) UI" where
  "SetExe env ui exe =
     ui\<lparr>Exe := Some exe, Symbols := SetSymbols env (Symbols ui) (Syms exe)\<rparr>"

subsection \<open>main\<close>

text \<open>
  The argument is \<^verbatim>\<open>os.Args[1:]\<close>. The result is how the run ends (\<^verbatim>\<open>os.Exit\<close>, an
  uncaught panic, or the Gio event loop started on a UI) together with the external calls
  made, in order. The flag set is \<^verbatim>\<open>flag.CommandLine\<close>, whose error handling is
  \<^verbatim>\<open>ExitOnError\<close>: when \<^verbatim>\<open>flag.Parse\<close> fails it has printed the usage, after the error
  unless the error is \<^verbatim>\<open>ErrHelp\<close>, and it exits with status 0 for \<^verbatim>\<open>ErrHelp\<close> and 2
  otherwise. \<open>Running ui\<close> is the state in which \<^verbatim>\<open>app.Main\<close> is entered; the goroutine
  that waits for the windows to close and the event loop itself are not part of the model.
\<close>

definition main ::
  "('e, 're, 'f, 'm, 's, 'y) Env \<Rightarrow> string list
     \<Rightarrow> ('e, ('f, 'm, 's, 'y) UI) outcome \<times> 're call list" where
  "main env argv =
     (case flag_Parse (strconv_ParseInt env) argv of
        Inl err \<Rightarrow>
          if err = ErrHelp then (Exited 0, [Call_flag_Usage, Call_os_Exit 0])
          else (Exited 2, [Fprintln_flag_error err, Call_flag_Usage, Call_os_Exit 2])
      | Inr cl \<Rightarrow>
     (let textSize = flag_Int (flag_text_size cl) 12;
          filter = flag_String (flag_filter cl) [];
          context = flag_Int (flag_context cl) 3;
          font = flag_String (flag_font cl) [];
          maxMatches = flag_Int (flag_max_matches cl) 10;
          exename = flag_Arg (args cl) 0
      in
      if exename = [] \<or> filter = [] then
        (Exited 1,
         [Fprintln_Stderr ''lensm -filter main <exename>'', Call_flag_Usage, Call_os_Exit 1])
      else
        (case regexp_Compile env filter of
           Inl err \<Rightarrow> (Panicked (Panic_error err), [Call_regexp_Compile filter])
         | Inr re \<Rightarrow>
            (let opts = \<lparr>Options.Exe = exename, Filter = re, Context = context,
                         MaxSymbols = maxMatches\<rparr>
             in
             case Parse env opts of
               Inl err \<Rightarrow>
                 (Panicked (Panic_error err), [Call_regexp_Compile filter, Call_Parse opts])
             | Inr out \<Rightarrow>
                (case ParseExe env exename of
                   Inl err \<Rightarrow>
                     (Panicked (Panic_error err),
                      [Call_regexp_Compile filter, Call_Parse opts, Call_ParseExe exename])
                 | Inr exe \<Rightarrow>
                    (case fontCollection env font of
                       (Inl p, calls) \<Rightarrow>
                         (Panicked p,
                          [Call_regexp_Compile filter, Call_Parse opts, Call_ParseExe exename]
                            @ calls)
                     | (Inr faces, calls) \<Rightarrow>
                         (let windows = [];
                              theme = (NewTheme faces)\<lparr>TextSize := textSize\<rparr>;
                              ui = NewUI env windows theme;
                              ui = ui\<lparr>Output := Some out\<rparr>;
                              ui = SetExe env ui exe;
                              ui = ui\<lparr>Windows :=
                                     Windows_Open (Windows ui) ''lensm'' (1400, 900) Run_UI\<rparr>
                          in (Running ui,
                              [Call_regexp_Compile filter, Call_Parse opts, Call_ParseExe exename]
                                @ calls @ [Call_Windows_Open ''lensm'', Call_app_Main]))))))))"

subsection \<open>Selection and scroll state\<close>

definition resetScroll :: "('f, 'm, 's, 'y) UI \<Rightarrow> ('f, 'm, 's, 'y) UI" where
  "resetScroll ui =
     ui\<lparr>MatchUI := (MatchUI ui)\<lparr>asm_scroll := 100000, src_scroll := 100000\<rparr>\<rparr>"

text \<open>
  \<^verbatim>\<open>target < 0 || target >= len(ui.Output.Matches)\<close> reads \<^verbatim>\<open>ui.Output\<close> only when the
  first test is false; a nil \<^verbatim>\<open>ui.Output\<close> panics there. \<^verbatim>\<open>ui.Selected == match\<close>
  compares two pointers into the same slice: they are equal when the indices are.
\<close>

definition selectIndex ::
  "('f, 'm, 's, 'y) UI \<Rightarrow> int \<Rightarrow> runtime_error + ('f, 'm, 's, 'y) UI" where
  "selectIndex ui target =
     (let cleared =
            resetScroll (ui\<lparr>Selected := None,
                            Matches := (Matches ui)\<lparr>SelectList.Selected := - 1\<rparr>\<rparr>)
      in
      if target < 0 then Inr cleared
      else
        (case Output ui of
           None \<Rightarrow> Inl Nil_dereference
         | Some out \<Rightarrow>
            if target \<ge> int (length (Output.Matches out)) then Inr cleared
            else
              (let match = Some (nat target);
                   ui = ui\<lparr>Matches := (Matches ui)\<lparr>SelectList.Selected := target\<rparr>\<rparr>
               in
               if Selected ui = match then Inr ui
               else Inr (resetScroll (ui\<lparr>Selected := match\<rparr>)))))"

subsection \<open>Layout contexts\<close>

text \<open>
  A \<^verbatim>\<open>unit.Metric\<close> holds two float32 scale factors; the model keeps the three conversions
  main.go asks of it: \<^verbatim>\<open>Metric.Sp\<close>, \<^verbatim>\<open>Metric.Dp\<close> and
  \<^verbatim>\<open>int(float32(x) / Metric.PxPerDp)\<close>.
\<close>

record Metric =
  Sp :: "int \<Rightarrow> int"
  Dp :: "int \<Rightarrow> int"
  div_PxPerDp :: "int \<Rightarrow> int"

record Constraints =
  Min_pt :: "int \<times> int"
  Max_pt :: "int \<times> int"

record layout_Context =
  Constraints :: Constraints
  Metric :: Metric

record Dimensions =
  Size :: "int \<times> int"
  Baseline :: int

definition Exact :: "int \<times> int \<Rightarrow> Constraints" where
  "Exact pt = \<lparr>Min_pt = pt, Max_pt = pt\<rparr>"

text \<open>The zero value \<^verbatim>\<open>layout.Dimensions{}\<close>.\<close>

definition Dimensions_zero :: Dimensions where
  "Dimensions_zero = \<lparr>Size = (0, 0), Baseline = 0\<rparr>"

subsection \<open>openInNew\<close>

text \<open>
  \<^verbatim>\<open>ui.Selected.Name\<close> panics on a nil \<^verbatim>\<open>ui.Selected\<close>. A non-nil \<^verbatim>\<open>ui.Selected\<close> is only
  ever \<^verbatim>\<open>&ui.Output.Matches[i]\<close> for an index in range (\<open>selectIndex_wellformed\<close> below);
  the two other panic branches keep the function total on records outside that invariant.
\<close>

definition openInNew ::
  "('f, 'm, 's, 'y) UI \<Rightarrow> layout_Context \<Rightarrow> runtime_error + ('f, 'm, 's, 'y) UI" where
  "openInNew ui gtx =
     (let state = MatchUI ui;
          style = \<lparr>MatchUIStyle.Theme = Theme ui, Match = Selected ui, MatchUIState = state\<rparr>;
          size = Max_pt (Constraints gtx);
          size = (div_PxPerDp (Metric gtx) (fst size), snd size);
          size = (fst size, div_PxPerDp (Metric gtx) (snd size))
      in
      case Selected ui of
        None \<Rightarrow> Inl Nil_dereference
      | Some i \<Rightarrow>
         (case Output ui of
            None \<Rightarrow> Inl Nil_dereference
          | Some out \<Rightarrow>
             if i < length (Output.Matches out) then
               Inr (ui\<lparr>Windows :=
                      Windows_Open (Windows ui) (Name (Output.Matches out ! i)) size
                        (Widget_Window style)\<rparr>)
             else Inl Index_out_of_range))"

text \<open>A record is well formed when its \<open>Selected\<close> pointer points into its \<open>Output\<close>.\<close>

definition wellformed :: "('f, 'm, 's, 'y) UI \<Rightarrow> bool" where
  "wellformed ui =
     (case Selected ui of
        None \<Rightarrow> True
      | Some i \<Rightarrow>
         (case Output ui of None \<Rightarrow> False | Some out \<Rightarrow> i < length (Output.Matches out)))"

subsection \<open>Sequences of UI calls\<close>

datatype ui_op = Op_selectIndex int | Op_openInNew layout_Context

fun ui_step :: "ui_op \<Rightarrow> ('f, 'm, 's, 'y) UI \<Rightarrow> runtime_error + ('f, 'm, 's, 'y) UI" where
  "ui_step (Op_selectIndex target) ui = selectIndex ui target"
| "ui_step (Op_openInNew gtx) ui = openInNew ui gtx"

text \<open>
  The states a sequence of calls goes through, the starting state first; a panic ends the
  run, so the states after it do not exist.
\<close>

fun ui_states :: "ui_op list \<Rightarrow> ('f, 'm, 's, 'y) UI \<Rightarrow> ('f, 'm, 's, 'y) UI list" where
  "ui_states [] ui = [ui]"
| "ui_states (c # cs) ui =
     ui # (case ui_step c ui of Inl p \<Rightarrow> [] | Inr ui' \<Rightarrow> ui_states cs ui')"

subsection \<open>Layout\<close>

text \<open>
  A Go function body is a sequence of statements; a \<^verbatim>\<open>return\<close> ends it. \<open>stmt_then s rest\<close>
  is the statement \<open>s\<close> followed by the rest of the body, whose value is the function's
  result when \<open>s\<close> falls through.
\<close>

datatype 'r stmt = Return 'r | Falls_through

definition stmt_then :: "'r stmt \<Rightarrow> 'r \<Rightarrow> 'r" where
  "stmt_then s rest = (case s of Return r \<Rightarrow> r | Falls_through \<Rightarrow> rest)"

record NRGBA =
  R :: nat
  G :: nat
  B :: nat
  A :: nat

definition hoverBackground :: NRGBA where
  "hoverBackground = \<lparr>R = 0xA0, G = 0xA0, B = 0xE0, A = 0xFF\<rparr>"

definition secondaryBackground :: NRGBA where
  "secondaryBackground = \<lparr>R = 0xF0, G = 0xF0, B = 0xF0, A = 0xFF\<rparr>"

definition splitterColor :: NRGBA where
  "splitterColor = \<lparr>R = 0x80, G = 0x80, B = 0x80, A = 0xFF\<rparr>"

text \<open>\<^verbatim>\<open>paint.FillShape(gtx.Ops, color, clip.Rect{Max: size}.Op())\<close> appends to the frame's ops.\<close>

datatype paint_op = FillShape NRGBA "int \<times> int"

datatype Axis = Horizontal | Vertical

datatype Direction = NW | N | NE | E | SE | S | SW | W | Center

datatype 'w FlexChild = Rigid 'w | Flexed int 'w

datatype 'w StackChild = Stacked 'w | Expanded 'w

text \<open>
  A frame is what a widget closure can change: the UI it captured by pointer and the ops
  of the context. A widget returns its dimensions, or the run-time panic that ended it.
\<close>

type_synonym ('f, 'm, 's, 'y) frame = "('f, 'm, 's, 'y) UI \<times> paint_op list"

type_synonym ('f, 'm, 's, 'y) widget =
  "layout_Context \<Rightarrow> ('f, 'm, 's, 'y) frame
     \<Rightarrow> runtime_error + Dimensions \<times> ('f, 'm, 's, 'y) frame"

text \<open>
  The layout functions of Gio and of the package's other files. \<open>MatchUIStyle_Layout\<close>
  receives the style, the Match its pointer refers to, and returns the MatchUIState it
  holds by pointer as it leaves it.
\<close>

record ('f, 'm, 's, 'y) Gui =
  SymbolList_Layout :: "'y \<Rightarrow> 'f Theme \<Rightarrow> layout_Context \<Rightarrow> Dimensions \<times> 'y"
  SelectList_Layout ::
    "SelectList \<Rightarrow> 'f Theme \<Rightarrow> layout_Context \<Rightarrow> int \<Rightarrow> (int \<Rightarrow> runtime_error + string)
       \<Rightarrow> runtime_error + Dimensions \<times> SelectList"
  MatchUIStyle_Layout ::
    "'f MatchUIStyle \<Rightarrow> 'm Match_scheme option \<Rightarrow> layout_Context
       \<Rightarrow> runtime_error + Dimensions \<times> MatchUIState"
  H4_Layout :: "'f Theme \<Rightarrow> string \<Rightarrow> layout_Context \<Rightarrow> Dimensions"
  IconButton_Layout ::
    "'f Theme \<Rightarrow> nat \<Rightarrow> string \<Rightarrow> int \<Rightarrow> int \<Rightarrow> layout_Context \<Rightarrow> Dimensions \<times> nat"
  UniformInset_Layout ::
    "int \<Rightarrow> layout_Context \<Rightarrow> ('f, 'm, 's, 'y) widget \<Rightarrow> ('f, 'm, 's, 'y) frame
       \<Rightarrow> runtime_error + Dimensions \<times> ('f, 'm, 's, 'y) frame"
  Stack_Layout ::
    "Direction \<Rightarrow> layout_Context \<Rightarrow> ('f, 'm, 's, 'y) widget StackChild list
       \<Rightarrow> ('f, 'm, 's, 'y) frame \<Rightarrow> runtime_error + Dimensions \<times> ('f, 'm, 's, 'y) frame"
  Flex_Layout ::
    "Axis \<Rightarrow> layout_Context \<Rightarrow> ('f, 'm, 's, 'y) widget FlexChild list
       \<Rightarrow> ('f, 'm, 's, 'y) frame \<Rightarrow> runtime_error + Dimensions \<times> ('f, 'm, 's, 'y) frame"

text \<open>What a \<^verbatim>\<open>*Match\<close> of the UI points at.\<close>

definition pointee :: "('f, 'm, 's, 'y) UI \<Rightarrow> nat option \<Rightarrow> 'm Match_scheme option" where
  "pointee ui p =
     (case p of
        None \<Rightarrow> None
      | Some i \<Rightarrow>
         (case Output ui of
            None \<Rightarrow> None
          | Some out \<Rightarrow>
             if i < length (Output.Matches out) then Some (Output.Matches out ! i) else None))"

text \<open>layoutCode does not use its \<^verbatim>\<open>match\<close> argument: the style takes \<^verbatim>\<open>ui.Selected\<close>.\<close>

definition layoutCode ::
  "('f, 'm, 's, 'y) Gui \<Rightarrow> layout_Context \<Rightarrow> ('f, 'm, 's, 'y) UI \<Rightarrow> nat option
     \<Rightarrow> runtime_error + Dimensions \<times> ('f, 'm, 's, 'y) UI" where
  "layoutCode gui gtx ui match =
     (let style = \<lparr>MatchUIStyle.Theme = Theme ui, Match = Selected ui,
                   MatchUIState = MatchUI ui\<rparr>
      in
      case MatchUIStyle_Layout gui style (pointee ui (Selected ui)) gtx of
        Inl p \<Rightarrow> Inl p
      | Inr (dims, state) \<Rightarrow> Inr (dims, ui\<lparr>MatchUI := state\<rparr>))"

definition layoutMatches ::
  "('f, 'm, 's, 'y) Gui \<Rightarrow> layout_Context \<Rightarrow> ('f, 'm, 's, 'y) UI
     \<Rightarrow> runtime_error + Dimensions \<times> ('f, 'm, 's, 'y) UI" where
  "layoutMatches gui gtx ui =
     (case Output ui of
        None \<Rightarrow> Inl Nil_dereference
      | Some out \<Rightarrow>
         (case SelectList_Layout gui (Matches ui) (Theme ui) gtx
                 (int (length (Output.Matches out)))
                 (\<lambda>index.
                    if 0 \<le> index \<and> nat index < length (Output.Matches out)
                    then Inr (Name (Output.Matches out ! nat index))
                    else Inl Index_out_of_range) of
            Inl p \<Rightarrow> Inl p
          | Inr (dims, list) \<Rightarrow>
             (case selectIndex (ui\<lparr>Matches := list\<rparr>) (SelectList.Selected list) of
                Inl p \<Rightarrow> Inl p
              | Inr ui \<Rightarrow> Inr (dims, ui))))"

text \<open>The four children of the Flex, in the order Layout passes them.\<close>

definition Layout_symbols :: "('f, 'm, 's, 'y) Gui \<Rightarrow> ('f, 'm, 's, 'y) widget" where
  "Layout_symbols gui gtx fr =
     stmt_then (Return (Inr (Dimensions_zero, fr)))
       (let gtx = gtx\<lparr>Constraints :=
                    Exact (Sp (Metric gtx) (10 * 20), snd (Max_pt (Constraints gtx)))\<rparr>;
            (dims, symbols) = SymbolList_Layout gui (Symbols (fst fr)) (Theme (fst fr)) gtx
        in Inr (dims, ((fst fr)\<lparr>Symbols := symbols\<rparr>, snd fr)))"

definition Layout_matches :: "('f, 'm, 's, 'y) Gui \<Rightarrow> ('f, 'm, 's, 'y) widget" where
  "Layout_matches gui gtx fr =
     (let size = Max_pt (Constraints gtx);
          gtx = gtx\<lparr>Constraints :=
                  Exact (Sp (Metric gtx) (10 * 20), snd (Max_pt (Constraints gtx)))\<rparr>;
          ops = snd fr @ [FillShape secondaryBackground size]
      in
      case layoutMatches gui gtx (fst fr) of
        Inl p \<Rightarrow> Inl p
      | Inr (dims, ui) \<Rightarrow> Inr (dims, (ui, ops)))"

definition Layout_splitter :: "('f, 'm, 's, 'y) widget" where
  "Layout_splitter gtx fr =
     (let size = (Dp (Metric gtx) 1, snd (Max_pt (Constraints gtx)));
          ops = snd fr @ [FillShape splitterColor size]
      in Inr (\<lparr>Size = size, Baseline = 0\<rparr>, (fst fr, ops)))"

definition Layout_code :: "('f, 'm, 's, 'y) Gui \<Rightarrow> ('f, 'm, 's, 'y) widget" where
  "Layout_code gui gtx fr =
     (let gtx = gtx\<lparr>Constraints := Exact (Max_pt (Constraints gtx))\<rparr> in
      if Selected (fst fr) = None then
        Inr (H4_Layout gui (Theme (fst fr)) ''no matches'' gtx, fr)
      else
        Stack_Layout gui SE gtx
          [Expanded (\<lambda>gtx fr.
             case layoutCode gui gtx (fst fr) (Selected (fst fr)) of
               Inl p \<Rightarrow> Inl p
             | Inr (dims, ui) \<Rightarrow> Inr (dims, (ui, snd fr))),
           Stacked (\<lambda>gtx fr.
             UniformInset_Layout gui 2 gtx
               (\<lambda>gtx fr.
                  let (dims, clicks) =
                        IconButton_Layout gui (Theme (fst fr)) (OpenInNew (fst fr))
                          ''Open in separate window'' 16 12 gtx
                  in Inr (dims, ((fst fr)\<lparr>OpenInNew := clicks\<rparr>, snd fr)))
               fr)]
          fr)"

text \<open>
  \<^verbatim>\<open>for ui.OpenInNew.Clicked() { ui.openInNew(gtx) }\<close>: each call of \<^verbatim>\<open>Clicked\<close> takes one
  queued click; the first argument is the number of clicks still queued.
\<close>

fun Layout_clicks ::
  "nat \<Rightarrow> ('f, 'm, 's, 'y) UI \<Rightarrow> layout_Context \<Rightarrow> runtime_error + ('f, 'm, 's, 'y) UI" where
  "Layout_clicks 0 ui gtx = Inr ui"
| "Layout_clicks (Suc n) ui gtx =
     (case openInNew (ui\<lparr>OpenInNew := n\<rparr>) gtx of
        Inl p \<Rightarrow> Inl p
      | Inr ui' \<Rightarrow> Layout_clicks n ui' gtx)"

definition Layout ::
  "('f, 'm, 's, 'y) Gui \<Rightarrow> layout_Context \<Rightarrow> ('f, 'm, 's, 'y) frame
     \<Rightarrow> runtime_error + ('f, 'm, 's, 'y) frame" where
  "Layout gui gtx fr =
     (case (if Selected (fst fr) = None then
              (case Output (fst fr) of
                 None \<Rightarrow> Inl Nil_dereference
               | Some out \<Rightarrow>
                  if length (Output.Matches out) > 0 then selectIndex (fst fr) 0
                  else Inr (fst fr))
            else Inr (fst fr)) of
        Inl p \<Rightarrow> Inl p
      | Inr ui \<Rightarrow>
         (case Layout_clicks (OpenInNew ui) ui gtx of
            Inl p \<Rightarrow> Inl p
          | Inr ui \<Rightarrow>
             (case Flex_Layout gui Horizontal gtx
                     [Rigid (Layout_symbols gui),
                      Rigid (Layout_matches gui),
                      Rigid Layout_splitter,
                      Flexed 1 (Layout_code gui)]
                     (ui, snd fr) of
                Inl p \<Rightarrow> Inl p
              | Inr (dims, fr') \<Rightarrow> Inr fr')))"

section \<open>The matcher\<close>

text \<open>
  \<^verbatim>\<open>Parse\<close> (the spec's \<^verbatim>\<open>BuildOutput\<close>, section 4.5) is called by main.go and defined in a
  file that is not among the sources at hand; it is modelled from the spec. The model
  follows steps 1, 2 and 5 of the spec's algorithm. Steps 3 and 4 (disassembly, grouping
  into blocks, source windows) are the parameter \<open>correlate\<close>; the regular-expression
  test is the parameter \<open>MatchString\<close>.
\<close>

text \<open>
  Modelled from the spec: the Symbol of the data model (section 3), whose declaration is
  not in main.go: "name: string, start address, size, section identifier".
\<close>

record Symbol =
  symbol_name :: string
  start_address :: nat
  symbol_size :: nat
  section_id :: nat

text \<open>
  Modelled from the spec: the scan of \<^verbatim>\<open>Parse\<close>, which is not in main.go. Symbols are
  visited in symbol-table order; a symbol is accepted when the pattern matches its name,
  and one Match (carrying the symbol's name) is appended per accepted symbol; the scan
  halts as soon as \<open>maxMatches\<close> symbols have been accepted, so a cap of zero or less
  accepts nothing.
\<close>

fun accept_symbols ::
  "(string \<Rightarrow> bool) \<Rightarrow> (Symbol \<Rightarrow> 'm Match_scheme) \<Rightarrow> int \<Rightarrow> Symbol list
     \<Rightarrow> 'm Match_scheme list \<Rightarrow> 'm Match_scheme list" where
  "accept_symbols matches build maxMatches [] accepted = accepted"
| "accept_symbols matches build maxMatches (symbol # symbols) accepted =
     (if int (length accepted) \<ge> maxMatches then accepted
      else if matches (symbol_name symbol) then
        accept_symbols matches build maxMatches symbols
          (accepted @ [(build symbol)\<lparr>Name := symbol_name symbol\<rparr>])
      else accept_symbols matches build maxMatches symbols accepted)"

text \<open>
  Modelled from the spec: \<^verbatim>\<open>BuildOutput(executable, pattern, context, maxMatches)\<close>, the
  contract of \<^verbatim>\<open>Parse\<close>, which is not in main.go: the Output holds the Matches of the
  accepted symbols, in the order the symbols were met.
\<close>

definition BuildOutput ::
  "('re \<Rightarrow> string \<Rightarrow> bool) \<Rightarrow> (Symbol Executable \<Rightarrow> int \<Rightarrow> Symbol \<Rightarrow> 'm Match_scheme)
     \<Rightarrow> Symbol Executable \<Rightarrow> 're \<Rightarrow> int \<Rightarrow> int \<Rightarrow> 'm Output" where
  "BuildOutput MatchString correlate executable pattern context maxMatches =
     \<lparr>Output.Matches =
        accept_symbols (MatchString pattern) (correlate executable context) maxMatches
          (Syms executable) []\<rparr>"

section \<open>A concrete run\<close>

text \<open>
  An environment, a context and the collaborators of a frame, for evaluating the
  definitions: a filter that does not compile, an executable that does not parse, a font
  file that is missing and one that is not a font, a matcher that returns at most
  \<open>MaxSymbols\<close> of two matches; containers that lay each child out once, rigid before
  flexed and stacked before expanded.
\<close>

definition example_env :: "(string, string, string, unit, string, string list) Env" where
  "example_env =
     \<lparr>strconv_ParseInt = (\<lambda>v. case map_of [(''0'', 0), (''1'', 1), (''5'', 5)] v of
                                None \<Rightarrow> Inl ''invalid syntax'' | Some n \<Rightarrow> Inr n),
      regexp_Compile = (\<lambda>p. if p = ''('' then Inl ''missing closing )'' else Inr p),
      Parse = (\<lambda>opts. if Options.Exe opts = ''broken'' then Inl ''not an executable''
                       else Inr \<lparr>Output.Matches =
                                   take (nat (MaxSymbols opts))
                                     [\<lparr>Name = ''main.foo''\<rparr>, \<lparr>Name = ''main.bar''\<rparr>]\<rparr>),
      ParseExe = (\<lambda>p. if p = ''stripped'' then Inl ''no symbol table''
                       else Inr \<lparr>Syms = [''main.foo'', ''main.bar'', ''helper'']\<rparr>),
      ReadFile = (\<lambda>p. if p = ''missing.ttf'' then Inl ''no such file'' else Inr p),
      opentype_Parse = (\<lambda>b. if b = ''bad.ttf'' then Inl ''invalid font'' else Inr b),
      gofont_Collection = [\<lparr>Font = \<lparr>Variant = [], Weight = Normal\<rparr>, Face = ''Go''\<rparr>],
      VerticalSelectList = (\<lambda>h. \<lparr>SelectList.Selected = 0\<rparr>),
      NewSymbolList = (\<lambda>t. []),
      SetSymbols = (\<lambda>y syms. syms)\<rparr>"

text \<open>The UI that \<^verbatim>\<open>lensm -filter main a.out\<close> starts in this environment.\<close>

definition example_ui :: "(string, unit, string, string list) UI" where
  "example_ui =
     \<lparr>Windows = [\<lparr>title = ''lensm'', sizeDp = (1400, 900), run = Run_UI\<rparr>],
      Theme = \<lparr>Fonts = [\<lparr>Font = \<lparr>Variant = [], Weight = Normal\<rparr>, Face = ''Go''\<rparr>],
               TextSize = 12\<rparr>,
      Output = Some \<lparr>Output.Matches = [\<lparr>Name = ''main.foo''\<rparr>, \<lparr>Name = ''main.bar''\<rparr>]\<rparr>,
      Matches = \<lparr>SelectList.Selected = 0\<rparr>,
      Selected = None,
      MatchUI = \<lparr>asm_scroll = 0, src_scroll = 0\<rparr>,
      OpenInNew = 0,
      Exe = Some \<lparr>Syms = [''main.foo'', ''main.bar'', ''helper'']\<rparr>,
      Symbols = [''main.foo'', ''main.bar'', ''helper'']\<rparr>"

definition example_gtx :: layout_Context where
  "example_gtx =
     \<lparr>Constraints = \<lparr>Min_pt = (0, 0), Max_pt = (1400, 900)\<rparr>,
      Metric = \<lparr>Sp = (\<lambda>v. v), Dp = (\<lambda>v. v), div_PxPerDp = (\<lambda>v. v)\<rparr>\<rparr>"

fun layout_each ::
  "layout_Context \<Rightarrow> ('f, 'm, 's, 'y) widget list \<Rightarrow> ('f, 'm, 's, 'y) frame
     \<Rightarrow> runtime_error + Dimensions \<times> ('f, 'm, 's, 'y) frame" where
  "layout_each gtx [] fr = Inr (\<lparr>Size = Max_pt (Constraints gtx), Baseline = 0\<rparr>, fr)"
| "layout_each gtx (w # ws) fr =
     (case w gtx fr of Inl p \<Rightarrow> Inl p | Inr (dims, fr') \<Rightarrow> layout_each gtx ws fr')"

fun rigid_widgets :: "'w FlexChild list \<Rightarrow> 'w list" where
  "rigid_widgets [] = []"
| "rigid_widgets (Rigid w # cs) = w # rigid_widgets cs"
| "rigid_widgets (Flexed weight w # cs) = rigid_widgets cs"

fun flexed_widgets :: "'w FlexChild list \<Rightarrow> 'w list" where
  "flexed_widgets [] = []"
| "flexed_widgets (Rigid w # cs) = flexed_widgets cs"
| "flexed_widgets (Flexed weight w # cs) = w # flexed_widgets cs"

fun stacked_widgets :: "'w StackChild list \<Rightarrow> 'w list" where
  "stacked_widgets [] = []"
| "stacked_widgets (Stacked w # cs) = w # stacked_widgets cs"
| "stacked_widgets (Expanded w # cs) = stacked_widgets cs"

fun expanded_widgets :: "'w StackChild list \<Rightarrow> 'w list" where
  "expanded_widgets [] = []"
| "expanded_widgets (Stacked w # cs) = expanded_widgets cs"
| "expanded_widgets (Expanded w # cs) = w # expanded_widgets cs"

text \<open>The collaborators of a frame in which the user touches nothing.\<close>

definition example_gui :: "(string, unit, string, string list) Gui" where
  "example_gui =
     \<lparr>SymbolList_Layout = (\<lambda>symbols theme gtx.
        (\<lparr>Size = Max_pt (Constraints gtx), Baseline = 0\<rparr>, symbols)),
      SelectList_Layout = (\<lambda>list theme gtx n item.
        Inr (\<lparr>Size = Max_pt (Constraints gtx), Baseline = 0\<rparr>, list)),
      MatchUIStyle_Layout = (\<lambda>style match gtx.
        Inr (\<lparr>Size = Max_pt (Constraints gtx), Baseline = 0\<rparr>, MatchUIState style)),
      H4_Layout = (\<lambda>theme txt gtx. \<lparr>Size = Max_pt (Constraints gtx), Baseline = 0\<rparr>),
      IconButton_Layout = (\<lambda>theme clicks description sz inset gtx.
        (\<lparr>Size = (sz + 2 * inset, sz + 2 * inset), Baseline = 0\<rparr>, clicks)),
      UniformInset_Layout = (\<lambda>inset gtx w fr. w gtx fr),
      Stack_Layout = (\<lambda>alignment gtx children fr.
        layout_each gtx (stacked_widgets children @ expanded_widgets children) fr),
      Flex_Layout = (\<lambda>axis gtx children fr.
        layout_each gtx (rigid_widgets children @ flexed_widgets children) fr)\<rparr>"

text \<open>
  The spec's scenario for the matcher: three symbols, a pattern that matches the names
  starting with \<^verbatim>\<open>main.\<close>; \<open>example_MatchString\<close> is a prefix test.
\<close>

definition example_MatchString :: "string \<Rightarrow> string \<Rightarrow> bool" where
  "example_MatchString prefix name = (take (length prefix) name = prefix)"

definition example_executable :: "Symbol Executable" where
  "example_executable =
     \<lparr>Syms =
        [\<lparr>symbol_name = ''main.foo'', start_address = 4096, symbol_size = 16, section_id = 1\<rparr>,
         \<lparr>symbol_name = ''main.bar'', start_address = 4112, symbol_size = 32, section_id = 1\<rparr>,
         \<lparr>symbol_name = ''helper'', start_address = 4144, symbol_size = 8, section_id = 1\<rparr>]\<rparr>"

definition example_correlate :: "Symbol Executable \<Rightarrow> int \<Rightarrow> Symbol \<Rightarrow> Match" where
  "example_correlate executable context symbol = \<lparr>Name = symbol_name symbol\<rparr>"

section \<open>Properties\<close>

subsection \<open>The Selected pointer stays inside Output\<close>

lemma NewUI_wellformed: "wellformed (NewUI env windows theme)"
  by (simp add: wellformed_def NewUI_def)

lemma selectIndex_wellformed: "selectIndex ui target = Inr ui' \<Longrightarrow> wellformed ui'"
proof (cases "target < 0")
  case True
  assume "selectIndex ui target = Inr ui'"
  with True show ?thesis
    by (auto simp: selectIndex_def resetScroll_def wellformed_def Let_def)
next
  case False
  assume sel: "selectIndex ui target = Inr ui'"
  show ?thesis
  proof (cases "Output ui")
    case None
    with False sel show ?thesis by (simp add: selectIndex_def Let_def)
  next
    case (Some out)
    with False sel show ?thesis
      by (auto simp: selectIndex_def resetScroll_def wellformed_def Let_def split: if_splits)
  qed
qed

lemma openInNew_wellformed:
  "wellformed ui \<Longrightarrow> openInNew ui gtx = Inr ui' \<Longrightarrow> wellformed ui'"
  by (auto simp: openInNew_def wellformed_def Let_def split: if_splits option.splits)

lemma openInNew_succeeds:
  "wellformed ui \<Longrightarrow> Selected ui \<noteq> None \<Longrightarrow> \<exists>ui'. openInNew ui gtx = Inr ui'"
  by (auto simp: openInNew_def wellformed_def Let_def split: option.splits)

subsection \<open>The matcher caps the number of matches\<close>

lemma accept_symbols_length:
  "length (accept_symbols matches build m symbols accepted) =
     (if m \<le> int (length accepted) then length accepted
      else min (nat m)
             (length accepted + length (filter (\<lambda>s. matches (symbol_name s)) symbols)))"
proof (induction symbols arbitrary: accepted)
  case Nil
  then show ?case by auto
next
  case (Cons symbol symbols)
  show ?case
  proof (cases "m \<le> int (length accepted)")
    case True
    then show ?thesis by simp
  next
    case False
    then show ?thesis using Cons.IH by auto
  qed
qed

text \<open>
  C1. For every executable, pattern, context and match cap \<open>m\<close>, the Output of the
  matcher holds \<open>min m k\<close> Matches when \<open>m > 0\<close>, where \<open>k\<close> is the number of symbols
  whose name the pattern matches, and no Match when \<open>m \<le> 0\<close>.
\<close>

theorem BuildOutput_count:
  "length (Output.Matches (BuildOutput MatchString correlate executable pattern context m)) =
     (if 0 < m
      then min (nat m)
             (length (filter (\<lambda>s. MatchString pattern (symbol_name s)) (Syms executable)))
      else 0)"
  by (simp add: BuildOutput_def accept_symbols_length)

theorem BuildOutput_count_witness:
  "map Name (Output.Matches
      (BuildOutput example_MatchString example_correlate example_executable ''main.'' 1 10)) =
     [''main.foo'', ''main.bar'']
   \<and> length (Output.Matches
      (BuildOutput example_MatchString example_correlate example_executable ''main.'' 1 1)) = 1
   \<and> length (Output.Matches
      (BuildOutput example_MatchString example_correlate example_executable ''main.'' 1 0)) = 0
   \<and> length (Output.Matches
      (BuildOutput example_MatchString example_correlate example_executable ''main.'' 1 (- 4))) = 0"
  using BuildOutput_count [of example_MatchString example_correlate example_executable "''main.''" 1 1]
        BuildOutput_count [of example_MatchString example_correlate example_executable "''main.''" 1 0]
        BuildOutput_count [of example_MatchString example_correlate example_executable "''main.''" 1 "- 4"]
  by (simp add: BuildOutput_def example_MatchString_def example_correlate_def example_executable_def)

subsection \<open>Start-up: usage errors, fatal errors, defaults\<close>

text \<open>
  C2, as the code has it. When \<^verbatim>\<open>flag.Parse\<close> returns and the executable path is absent
  (or empty), or the filter flag is not given or is the empty string, main prints the
  usage and exits with status 1. \<^verbatim>\<open>flag.Parse\<close> itself ends the run with status 0 on
  \<^verbatim>\<open>-h\<close> or \<^verbatim>\<open>-help\<close> and with status 2 on a malformed flag. None of these runs calls
  Parse or ParseExe.
\<close>

theorem main_usage_error:
  "(flag_Parse (strconv_ParseInt env) argv = Inr cl
      \<and> (args cl = [] \<or> flag_Arg (args cl) 0 = []
           \<or> flag_filter cl = None \<or> flag_filter cl = Some []) \<longrightarrow>
      main env argv =
        (Exited 1,
         [Fprintln_Stderr ''lensm -filter main <exename>'', Call_flag_Usage, Call_os_Exit 1]))
   \<and> (flag_Parse (strconv_ParseInt env) argv = Inl ErrHelp \<longrightarrow>
      main env argv = (Exited 0, [Call_flag_Usage, Call_os_Exit 0]))
   \<and> (flag_Parse (strconv_ParseInt env) argv = Inl err \<and> err \<noteq> ErrHelp \<longrightarrow>
      main env argv =
        (Exited 2, [Fprintln_flag_error err, Call_flag_Usage, Call_os_Exit 2]))
   \<and> (flag_Parse (strconv_ParseInt env) argv = Inr cl
        \<and> (args cl = [] \<or> flag_Arg (args cl) 0 = []
             \<or> flag_filter cl = None \<or> flag_filter cl = Some [])
        \<or> flag_Parse (strconv_ParseInt env) argv = Inl err \<longrightarrow>
      (\<forall>opts. Call_Parse opts \<notin> set (snd (main env argv)))
      \<and> (\<forall>name. Call_ParseExe name \<notin> set (snd (main env argv))))"
  by (auto simp: main_def flag_Arg_def flag_String_def Let_def)

theorem main_usage_error_witness:
  "flag_Parse (strconv_ParseInt example_env) [''-filter'', ''main''] =
     Inr (flags_unset\<lparr>flag_filter := Some ''main''\<rparr>)
   \<and> main example_env [''-filter'', ''main''] =
       (Exited 1,
        [Fprintln_Stderr ''lensm -filter main <exename>'', Call_flag_Usage, Call_os_Exit 1])
   \<and> flag_Parse (strconv_ParseInt example_env) [''a.out''] =
     Inr (flags_unset\<lparr>args := [''a.out'']\<rparr>)
   \<and> main example_env [''a.out''] =
       (Exited 1,
        [Fprintln_Stderr ''lensm -filter main <exename>'', Call_flag_Usage, Call_os_Exit 1])
   \<and> flag_Parse (strconv_ParseInt example_env) [''-help''] = Inl ErrHelp
   \<and> main example_env [''-help''] = (Exited 0, [Call_flag_Usage, Call_os_Exit 0])
   \<and> flag_Parse (strconv_ParseInt example_env) [''-context'', ''x'', ''a.out''] =
     Inl (Invalid_value ''x'' ''context'')
   \<and> main example_env [''-context'', ''x'', ''a.out''] =
       (Exited 2,
        [Fprintln_flag_error (Invalid_value ''x'' ''context''), Call_flag_Usage, Call_os_Exit 2])"
  using main_usage_error [of example_env "[''-filter'', ''main'']"
          "flags_unset\<lparr>flag_filter := Some ''main''\<rparr>"]
        main_usage_error [of example_env "[''a.out'']" "flags_unset\<lparr>args := [''a.out'']\<rparr>"]
        main_usage_error [of example_env "[''-help'']"]
        main_usage_error [of example_env "[''-context'', ''x'', ''a.out'']" _
          "Invalid_value ''x'' ''context''"]
  by (simp add: flag_Parse_def flags_unset_def flag_split_def flag_names_def flag_Set_def
        example_env_def)

text \<open>
  C2, as the claim states it, fails: for \<^verbatim>\<open>lensm -h\<close> no executable path and no filter
  is given, and the run ends in \<^verbatim>\<open>flag.Parse\<close> with exit status 0.
\<close>

theorem usage_exit_status_counterexample:
  "flag_Parse (strconv_ParseInt example_env) [''-h''] = Inl ErrHelp
   \<and> main example_env [''-h''] = (Exited 0, [Call_flag_Usage, Call_os_Exit 0])"
  by (simp add: main_def flag_Parse_def flags_unset_def flag_split_def flag_names_def)

text \<open>
  C5. When the filter pattern does not compile, the run never reaches the UI and makes no
  call of Parse or ParseExe; with an executable path and a non-empty pattern given, main
  calls \<^verbatim>\<open>regexp.Compile\<close> and panics with its error, and that is the only call it makes.
\<close>

theorem main_invalid_filter:
  assumes "flag_Parse (strconv_ParseInt env) argv = Inr cl"
    and "flag_filter cl = Some pat" and "regexp_Compile env pat = Inl err"
  shows "(\<forall>ui. fst (main env argv) \<noteq> Running ui)
         \<and> (\<forall>opts. Call_Parse opts \<notin> set (snd (main env argv)))
         \<and> (\<forall>name. Call_ParseExe name \<notin> set (snd (main env argv)))
         \<and> (flag_Arg (args cl) 0 \<noteq> [] \<and> pat \<noteq> [] \<longrightarrow>
              main env argv = (Panicked (Panic_error err), [Call_regexp_Compile pat]))"
  using assms by (auto simp: main_def flag_String_def Let_def)

theorem main_invalid_filter_witness:
  "flag_Parse (strconv_ParseInt example_env) [''-filter'', ''('', ''a.out''] =
     Inr (flags_unset\<lparr>flag_filter := Some ''('', args := [''a.out'']\<rparr>)
   \<and> regexp_Compile example_env ''('' = Inl ''missing closing )''
   \<and> flag_Arg [''a.out''] 0 \<noteq> [] \<and> ''('' \<noteq> []
   \<and> main example_env [''-filter'', ''('', ''a.out''] =
       (Panicked (Panic_error ''missing closing )''), [Call_regexp_Compile ''(''])"
  using main_invalid_filter [of example_env "[''-filter'', ''('', ''a.out'']"
          "flags_unset\<lparr>flag_filter := Some ''('', args := [''a.out'']\<rparr>" "''(''"
          "''missing closing )''"]
  by (simp add: flag_Parse_def flags_unset_def flag_split_def flag_names_def flag_Set_def
        example_env_def flag_Arg_def)

text \<open>
  C6. When Parse returns an error, or Parse succeeds and ParseExe returns an error, main
  panics with that error: the run does not reach the UI, opens no window and does not
  start the event loop.
\<close>

theorem main_format_error:
  assumes "flag_Parse (strconv_ParseInt env) argv = Inr cl"
    and "flag_Arg (args cl) 0 = exename" and "exename \<noteq> []"
    and "flag_filter cl = Some pat" and "pat \<noteq> []"
    and "regexp_Compile env pat = Inr re"
    and "opts = \<lparr>Options.Exe = exename, Filter = re,
                  Context = flag_Int (flag_context cl) 3,
                  MaxSymbols = flag_Int (flag_max_matches cl) 10\<rparr>"
    and "Parse env opts = Inl err
         \<or> (\<exists>out. Parse env opts = Inr out) \<and> ParseExe env exename = Inl err"
  shows "fst (main env argv) = Panicked (Panic_error err)
         \<and> (\<forall>ui. fst (main env argv) \<noteq> Running ui)
         \<and> (\<forall>t. Call_Windows_Open t \<notin> set (snd (main env argv)))
         \<and> Call_app_Main \<notin> set (snd (main env argv))"
  using assms by (auto simp: main_def flag_String_def Let_def)

theorem main_format_error_witness:
  "fst (main example_env [''-filter'', ''main'', ''broken'']) =
     Panicked (Panic_error ''not an executable'')
   \<and> fst (main example_env [''-filter'', ''main'', ''stripped'']) =
     Panicked (Panic_error ''no symbol table'')"
  using main_format_error [of example_env "[''-filter'', ''main'', ''broken'']"
          "flags_unset\<lparr>flag_filter := Some ''main'', args := [''broken'']\<rparr>"
          "''broken''" "''main''" "''main''" _ "''not an executable''"]
        main_format_error [of example_env "[''-filter'', ''main'', ''stripped'']"
          "flags_unset\<lparr>flag_filter := Some ''main'', args := [''stripped'']\<rparr>"
          "''stripped''" "''main''" "''main''" _ "''no symbol table''"]
  by (simp add: flag_Parse_def flags_unset_def flag_split_def flag_names_def flag_Set_def
        example_env_def flag_Arg_def flag_Int_def)

text \<open>\<^verbatim>\<open>flag.Parse\<close> leaves a flag unset when no argument names it.\<close>

lemma parse_flags_keeps:
  assumes keeps: "\<And>(P :: string \<Rightarrow> 'e + int) f name v f'. flag_Set P f name v = Inr f' \<Longrightarrow> name \<in> set flag_names \<Longrightarrow>
                    name \<noteq> n \<Longrightarrow> g f' = g f"
    and args: "\<And>f x. g (f\<lparr>args := x\<rparr>) = g f"
  shows "parse_flags (P :: string \<Rightarrow> 'e + int) f argv = Inr cl \<Longrightarrow>
           \<forall>a \<in> set argv. \<not> names_flag n a \<Longrightarrow> g cl = g f"
proof (induction P f argv rule: parse_flags.induct)
  case (1 P f)
  then show ?case using args by auto
next
  case (2 P f s rest)
  show ?case
  proof (cases "length s < 2 \<or> hd s \<noteq> CHR ''-'' \<or> s = ''--''")
    case True
    with "2.prems"(1) show ?thesis using args by (auto split: if_splits)
  next
    case False
    define name0 where "name0 = (if hd (tl s) = CHR ''-'' then tl (tl s) else tl s)"
    define name where "name = fst (flag_split name0)"
    define val where "val = snd (flag_split name0)"
    have other: "name \<noteq> n"
      using "2.prems"(2) False by (auto simp: names_flag_def name_def name0_def)
    have ok: "\<not> (name0 = [] \<or> hd name0 = CHR ''-'' \<or> hd name0 = CHR ''='')"
      and formal: "name \<in> set flag_names"
      using "2.prems"(1) False
      by (auto simp: Let_def name0_def name_def split: if_splits)
    show ?thesis
    proof (cases val)
      case (Some v)
      then obtain f' where set: "flag_Set P f name v = Inr f'"
          and rec: "parse_flags P f' rest = Inr cl"
        using "2.prems"(1) False ok formal
        by (auto simp: Let_def name0_def [symmetric] name_def [symmetric] val_def [symmetric]
                 split: sum.splits)
      have "g cl = g f'"
      proof (rule "2.IH"(2) [where x = name0 and xa = "flag_split name0" and xb = name
              and ?x2.0 = v and b = f'])
        show "\<forall>a\<in>set rest. \<not> names_flag n a" using "2.prems"(2) by simp
      qed (use False ok formal Some set rec in \<open>auto simp: name0_def name_def val_def\<close>)
      then show ?thesis using keeps [OF set formal other] by simp
    next
      case None
      then obtain v rest' f' where r: "rest = v # rest'"
          and set: "flag_Set P f name v = Inr f'"
          and rec: "parse_flags P f' rest' = Inr cl"
        using "2.prems"(1) False ok formal
        by (auto simp: Let_def name0_def [symmetric] name_def [symmetric] val_def [symmetric]
                 split: sum.splits list.splits)
      have "g cl = g f'"
      proof (rule "2.IH"(1) [where x = name0 and xa = "flag_split name0" and xb = name
              and ?x21.0 = v and ?x22.0 = rest' and b = f'])
        show "\<forall>a\<in>set rest'. \<not> names_flag n a" using "2.prems"(2) r by simp
      qed (use False ok formal None set rec r in \<open>auto simp: name0_def name_def val_def\<close>)
      then show ?thesis using keeps [OF set formal other] by simp
    qed
  qed
qed

lemma flag_Parse_context_omitted:
  assumes "flag_Parse P argv = Inr cl" and "\<forall>a \<in> set argv. \<not> names_flag ''context'' a"
  shows "flag_context cl = None"
proof -
  have "flag_context cl = flag_context flags_unset"
  proof (rule parse_flags_keeps [where g = flag_context and n = "''context''" and P = P
            and argv = argv])
    show "parse_flags P flags_unset argv = Inr cl" using assms(1) by (simp add: flag_Parse_def)
    show "\<forall>a \<in> set argv. \<not> names_flag ''context'' a" by (rule assms(2))
  qed (auto simp: flag_Set_def flag_names_def split: if_splits sum.splits)
  then show ?thesis by (simp add: flags_unset_def)
qed

lemma flag_Parse_max_matches_omitted:
  assumes "flag_Parse P argv = Inr cl" and "\<forall>a \<in> set argv. \<not> names_flag ''max-matches'' a"
  shows "flag_max_matches cl = None"
proof -
  have "flag_max_matches cl = flag_max_matches flags_unset"
  proof (rule parse_flags_keeps [where g = flag_max_matches and n = "''max-matches''" and P = P
            and argv = argv])
    show "parse_flags P flags_unset argv = Inr cl" using assms(1) by (simp add: flag_Parse_def)
    show "\<forall>a \<in> set argv. \<not> names_flag ''max-matches'' a" by (rule assms(2))
  qed (auto simp: flag_Set_def flag_names_def split: if_splits sum.splits)
  then show ?thesis by (simp add: flags_unset_def)
qed

lemma fontCollection_no_Parse: "Call_Parse opts \<notin> set (snd (fontCollection env path))"
  by (simp add: fontCollection_def Let_def split: sum.splits)

text \<open>
  C7. Let \<open>opts\<close> be the Options with the executable path, the compiled pattern, the
  context flag (3 when it was not given) as \<open>Context\<close> and the max-matches flag (10 when
  it was not given) as \<open>MaxSymbols\<close>; a flag that no argument of the command line names
  was not given. Once the arguments are accepted and the pattern
  compiles, main calls Parse exactly once, right after \<^verbatim>\<open>regexp.Compile\<close>, and what the
  run does next is what Parse makes of these very \<open>opts\<close>: an error of \<open>Parse env opts\<close>
  is the panic the run ends in, and the Output of any UI the run starts is the Output
  that \<open>Parse env opts\<close> returns (and the run does start a UI when ParseExe and the font
  succeed as well).
\<close>

theorem main_passes_options:
  assumes "flag_Parse (strconv_ParseInt env) argv = Inr cl"
    and "flag_Arg (args cl) 0 = exename" and "exename \<noteq> []"
    and "flag_filter cl = Some pat" and "pat \<noteq> []"
    and "regexp_Compile env pat = Inr re"
    and "opts = \<lparr>Options.Exe = exename, Filter = re,
                  Context = (case flag_context cl of None \<Rightarrow> 3 | Some c \<Rightarrow> c),
                  MaxSymbols = (case flag_max_matches cl of None \<Rightarrow> 10 | Some m \<Rightarrow> m)\<rparr>"
  shows "(\<exists>rest. snd (main env argv) = [Call_regexp_Compile pat, Call_Parse opts] @ rest
            \<and> (\<forall>opts'. Call_Parse opts' \<notin> set rest))
         \<and> (\<forall>err. Parse env opts = Inl err \<longrightarrow>
               main env argv =
                 (Panicked (Panic_error err), [Call_regexp_Compile pat, Call_Parse opts]))
         \<and> (\<forall>ui. fst (main env argv) = Running ui \<longrightarrow>
               (\<exists>out. Parse env opts = Inr out \<and> Output ui = Some out))
         \<and> (\<forall>out exe faces.
               Parse env opts = Inr out \<and> ParseExe env exename = Inr exe
               \<and> fst (fontCollection env (case flag_font cl of None \<Rightarrow> [] | Some f \<Rightarrow> f))
                   = Inr faces \<longrightarrow>
               (\<exists>ui. fst (main env argv) = Running ui \<and> Output ui = Some out))
         \<and> ((\<forall>a \<in> set argv. \<not> names_flag ''context'' a) \<longrightarrow> Context opts = 3)
         \<and> ((\<forall>a \<in> set argv. \<not> names_flag ''max-matches'' a) \<longrightarrow> MaxSymbols opts = 10)"
proof -
  have omitted:
    "((\<forall>a \<in> set argv. \<not> names_flag ''context'' a) \<longrightarrow> Context opts = 3)
     \<and> ((\<forall>a \<in> set argv. \<not> names_flag ''max-matches'' a) \<longrightarrow> MaxSymbols opts = 10)"
    using flag_Parse_context_omitted [OF assms(1)] flag_Parse_max_matches_omitted [OF assms(1)]
      assms(7)
    by auto
  let ?font = "case flag_font cl of None \<Rightarrow> [] | Some f \<Rightarrow> f"
  have opts: "opts = \<lparr>Options.Exe = exename, Filter = re,
                       Context = flag_Int (flag_context cl) 3,
                       MaxSymbols = flag_Int (flag_max_matches cl) 10\<rparr>"
    using assms(7) by (simp add: flag_Int_def)
  have font: "flag_String (flag_font cl) [] = ?font"
    by (simp add: flag_String_def)
  have filter: "flag_String (flag_filter cl) [] = pat"
    using assms(4) by (simp add: flag_String_def)
  obtain r calls where fc: "fontCollection env ?font = (r, calls)"
    by (cases "fontCollection env ?font")
  have calls: "\<And>opts'. Call_Parse opts' \<notin> set calls"
    using fontCollection_no_Parse [of _ env ?font] fc by simp
  show ?thesis
  proof (cases "Parse env opts")
    case (Inl err)
    then show ?thesis
      using assms(1,2,3,5,6) opts filter omitted by (simp add: main_def Let_def)
  next
    case out: (Inr out)
    show ?thesis
    proof (cases "ParseExe env exename")
      case (Inl err)
      then show ?thesis
        using assms(1,2,3,5,6) opts filter out omitted by (simp add: main_def Let_def)
    next
      case exe: (Inr exe)
      show ?thesis
      proof (cases r)
        case (Inl p)
        then show ?thesis
          using assms(1,2,3,5,6) opts filter font out exe fc calls omitted
          by (simp add: main_def Let_def)
      next
        case (Inr faces)
        then show ?thesis
          using assms(1,2,3,5,6) opts filter font out exe fc calls omitted
          by (simp add: main_def Let_def NewUI_def SetExe_def)
      qed
    qed
  qed
qed

theorem main_passes_options_witness:
  "list_all (\<lambda>a. \<not> names_flag ''context'' a \<and> \<not> names_flag ''max-matches'' a)
     [''-filter'', ''main'', ''a.out'']
   \<and> flag_Parse (strconv_ParseInt example_env) [''-filter'', ''main'', ''a.out''] =
     Inr (flags_unset\<lparr>flag_filter := Some ''main'', args := [''a.out'']\<rparr>)
   \<and> main example_env [''-filter'', ''main'', ''a.out''] =
       (Running example_ui,
        [Call_regexp_Compile ''main'',
         Call_Parse \<lparr>Options.Exe = ''a.out'', Filter = ''main'', Context = 3, MaxSymbols = 10\<rparr>,
         Call_ParseExe ''a.out'', Call_Windows_Open ''lensm'', Call_app_Main])
   \<and> Parse example_env
        \<lparr>Options.Exe = ''a.out'', Filter = ''main'', Context = 3, MaxSymbols = 10\<rparr> =
       Inr \<lparr>Output.Matches = [\<lparr>Name = ''main.foo''\<rparr>, \<lparr>Name = ''main.bar''\<rparr>]\<rparr>
   \<and> Output example_ui =
       Some \<lparr>Output.Matches = [\<lparr>Name = ''main.foo''\<rparr>, \<lparr>Name = ''main.bar''\<rparr>]\<rparr>
   \<and> flag_Parse (strconv_ParseInt example_env)
        [''-filter'', ''main'', ''-max-matches'', ''1'', ''-context=5'', ''a.out''] =
     Inr (flags_unset\<lparr>flag_filter := Some ''main'', flag_max_matches := Some 1,
                      flag_context := Some 5, args := [''a.out'']\<rparr>)
   \<and> main example_env
        [''-filter'', ''main'', ''-max-matches'', ''1'', ''-context=5'', ''a.out''] =
       (Running (example_ui\<lparr>Output := Some \<lparr>Output.Matches = [\<lparr>Name = ''main.foo''\<rparr>]\<rparr>\<rparr>),
        [Call_regexp_Compile ''main'',
         Call_Parse \<lparr>Options.Exe = ''a.out'', Filter = ''main'', Context = 5, MaxSymbols = 1\<rparr>,
         Call_ParseExe ''a.out'', Call_Windows_Open ''lensm'', Call_app_Main])"
  using main_passes_options [of example_env "[''-filter'', ''main'', ''a.out'']"
          "flags_unset\<lparr>flag_filter := Some ''main'', args := [''a.out'']\<rparr>"
          "''a.out''" "''main''" "''main''"]
        main_passes_options [of example_env
          "[''-filter'', ''main'', ''-max-matches'', ''1'', ''-context=5'', ''a.out'']"
          "flags_unset\<lparr>flag_filter := Some ''main'', flag_max_matches := Some 1,
                      flag_context := Some 5, args := [''a.out'']\<rparr>"
          "''a.out''" "''main''" "''main''"]
  by (simp add: main_def flag_Parse_def flags_unset_def flag_split_def flag_names_def
        flag_Set_def example_env_def example_ui_def flag_Arg_def flag_Int_def flag_String_def
        fontCollection_def NewUI_def SetExe_def NewTheme_def Windows_Open_def names_flag_def
        Let_def)

text \<open>
  C9. fontCollection returns Gio's default collection as it is for the empty path. For a
  path that is not empty it panics when the file cannot be read and when its bytes are
  not an OpenType font; main then ends in that panic although the executable was parsed.
\<close>

theorem fontCollection_panics:
  "fontCollection env [] = (Inr (gofont_Collection env), [])
   \<and> (path \<noteq> [] \<and> ReadFile env path = Inl err \<longrightarrow>
        fst (fontCollection env path) = Inl (Failed_to_parse_font err))
   \<and> (path \<noteq> [] \<and> ReadFile env path = Inr b \<and> opentype_Parse env b = Inl err \<longrightarrow>
        fst (fontCollection env path) = Inl (Failed_to_parse_font err))
   \<and> (flag_Parse (strconv_ParseInt env) argv = Inr cl
        \<and> flag_Arg (args cl) 0 = exename \<and> exename \<noteq> []
        \<and> flag_filter cl = Some pat \<and> pat \<noteq> [] \<and> regexp_Compile env pat = Inr re
        \<and> Parse env \<lparr>Options.Exe = exename, Filter = re,
                       Context = flag_Int (flag_context cl) 3,
                       MaxSymbols = flag_Int (flag_max_matches cl) 10\<rparr> = Inr out
        \<and> ParseExe env exename = Inr exe
        \<and> flag_font cl = Some font \<and> fst (fontCollection env font) = Inl p \<longrightarrow>
        fst (main env argv) = Panicked p)"
  by (auto simp: main_def fontCollection_def flag_String_def Let_def
           split: sum.splits prod.splits)

theorem fontCollection_panics_witness:
  "fst (fontCollection example_env ''missing.ttf'') = Inl (Failed_to_parse_font ''no such file'')
   \<and> fst (fontCollection example_env ''bad.ttf'') = Inl (Failed_to_parse_font ''invalid font'')
   \<and> fst (main example_env [''-filter'', ''main'', ''-font'', ''bad.ttf'', ''a.out'']) =
       Panicked (Failed_to_parse_font ''invalid font'')"
  using fontCollection_panics [of example_env "''missing.ttf''" "''no such file''" _
          "[''-filter'', ''main'', ''-font'', ''bad.ttf'', ''a.out'']"
          "flags_unset\<lparr>flag_filter := Some ''main'', flag_font := Some ''bad.ttf'',
                      args := [''a.out'']\<rparr>"
          "''a.out''" "''main''" "''main''" _ _ "''bad.ttf''"
          "Failed_to_parse_font ''invalid font''"]
        fontCollection_panics [of example_env "''bad.ttf''" "''invalid font''" "''bad.ttf''"]
  by (simp add: flag_Parse_def flags_unset_def flag_split_def flag_names_def flag_Set_def
        example_env_def flag_Arg_def flag_Int_def)

subsection \<open>selectIndex and openInNew\<close>

lemma selectIndex_Output: "selectIndex ui target = Inr ui' \<Longrightarrow> Output ui' = Output ui"
  by (auto simp: selectIndex_def resetScroll_def Let_def split: if_splits option.splits)

lemma openInNew_Output: "openInNew ui gtx = Inr ui' \<Longrightarrow> Output ui' = Output ui"
  by (auto simp: openInNew_def Let_def split: if_splits option.splits)

lemma ui_step_Output: "ui_step c ui = Inr ui' \<Longrightarrow> Output ui' = Output ui"
  by (cases c) (auto dest: selectIndex_Output openInNew_Output)

text \<open>
  C3. selectIndex and openInNew take the UI and nothing of the environment, so neither can
  call Parse; and in every state that a sequence of selectIndex and openInNew calls goes
  through, \<open>Output\<close> (the record with all its Matches) is what it was at the start.
\<close>

theorem ui_calls_keep_Output:
  "s \<in> set (ui_states calls ui) \<Longrightarrow> Output s = Output ui"
proof (induction calls arbitrary: ui)
  case Nil
  then show ?case by simp
next
  case (Cons c calls)
  show ?case
  proof (cases "ui_step c ui")
    case (Inl p)
    with Cons.prems show ?thesis by simp
  next
    case (Inr ui')
    with Cons.prems have "s = ui \<or> s \<in> set (ui_states calls ui')" by simp
    then show ?thesis
    proof
      assume "s = ui"
      then show ?thesis by simp
    next
      assume "s \<in> set (ui_states calls ui')"
      then have "Output s = Output ui'" by (rule Cons.IH)
      also have "Output ui' = Output ui" using Inr by (rule ui_step_Output)
      finally show ?thesis .
    qed
  qed
qed

theorem ui_calls_keep_Output_witness:
  "length (ui_states [Op_selectIndex 1, Op_openInNew example_gtx, Op_selectIndex 7] example_ui) = 4
   \<and> Selected (last (ui_states [Op_selectIndex 1, Op_openInNew example_gtx, Op_selectIndex 7]
                       example_ui)) = None
   \<and> length (Windows (last (ui_states [Op_selectIndex 1, Op_openInNew example_gtx, Op_selectIndex 7]
                       example_ui))) = 2
   \<and> Output (last (ui_states [Op_selectIndex 1, Op_openInNew example_gtx, Op_selectIndex 7]
                       example_ui)) = Output example_ui"
  using ui_calls_keep_Output
          [of "last (ui_states [Op_selectIndex 1, Op_openInNew example_gtx, Op_selectIndex 7]
                       example_ui)"
              "[Op_selectIndex 1, Op_openInNew example_gtx, Op_selectIndex 7]" example_ui]
  by (simp add: example_ui_def example_gtx_def selectIndex_def openInNew_def resetScroll_def
        Windows_Open_def Let_def)

text \<open>
  C8. selectIndex does not panic on a UI whose Output is set (nor on a negative target in
  any UI). A target outside \<open>[0, len(Output.Matches))\<close> clears the selection: Selected is
  nil, Matches.Selected is -1 and both scroll offsets are reset. A target in range that is
  the selected match changes Matches.Selected and nothing else. Any other target in range
  becomes the selected match and both scroll offsets are reset.
\<close>

theorem selectIndex_clamps:
  "(target < 0 \<longrightarrow>
      selectIndex ui target =
        Inr (ui\<lparr>Selected := None,
                Matches := (Matches ui)\<lparr>SelectList.Selected := - 1\<rparr>,
                MatchUI := (MatchUI ui)\<lparr>asm_scroll := 100000, src_scroll := 100000\<rparr>\<rparr>))
   \<and> (Output ui = Some out \<and> int (length (Output.Matches out)) \<le> target \<longrightarrow>
      selectIndex ui target =
        Inr (ui\<lparr>Selected := None,
                Matches := (Matches ui)\<lparr>SelectList.Selected := - 1\<rparr>,
                MatchUI := (MatchUI ui)\<lparr>asm_scroll := 100000, src_scroll := 100000\<rparr>\<rparr>))
   \<and> (Output ui = Some out \<and> 0 \<le> target \<and> target < int (length (Output.Matches out))
        \<and> Selected ui = Some (nat target) \<longrightarrow>
      selectIndex ui target =
        Inr (ui\<lparr>Matches := (Matches ui)\<lparr>SelectList.Selected := target\<rparr>\<rparr>))
   \<and> (Output ui = Some out \<and> 0 \<le> target \<and> target < int (length (Output.Matches out))
        \<and> Selected ui \<noteq> Some (nat target) \<longrightarrow>
      selectIndex ui target =
        Inr (ui\<lparr>Matches := (Matches ui)\<lparr>SelectList.Selected := target\<rparr>,
                Selected := Some (nat target),
                MatchUI := (MatchUI ui)\<lparr>asm_scroll := 100000, src_scroll := 100000\<rparr>\<rparr>))"
  by (simp add: selectIndex_def resetScroll_def Let_def)

theorem selectIndex_clamps_witness:
  "selectIndex example_ui (- 3) =
     Inr (example_ui\<lparr>Matches := \<lparr>SelectList.Selected = - 1\<rparr>,
                      MatchUI := \<lparr>asm_scroll = 100000, src_scroll = 100000\<rparr>\<rparr>)
   \<and> selectIndex example_ui 2 =
     Inr (example_ui\<lparr>Matches := \<lparr>SelectList.Selected = - 1\<rparr>,
                      MatchUI := \<lparr>asm_scroll = 100000, src_scroll = 100000\<rparr>\<rparr>)
   \<and> selectIndex (example_ui\<lparr>Selected := Some 1\<rparr>) 1 =
     Inr (example_ui\<lparr>Selected := Some 1, Matches := \<lparr>SelectList.Selected = 1\<rparr>\<rparr>)
   \<and> selectIndex example_ui 1 =
     Inr (example_ui\<lparr>Selected := Some 1, Matches := \<lparr>SelectList.Selected = 1\<rparr>,
                      MatchUI := \<lparr>asm_scroll = 100000, src_scroll = 100000\<rparr>\<rparr>)"
  using selectIndex_clamps [of "- 3" example_ui]
        selectIndex_clamps [of 2 example_ui
          "\<lparr>Output.Matches = [\<lparr>Name = ''main.foo''\<rparr>, \<lparr>Name = ''main.bar''\<rparr>]\<rparr>"]
        selectIndex_clamps [of 1 "example_ui\<lparr>Selected := Some 1\<rparr>"
          "\<lparr>Output.Matches = [\<lparr>Name = ''main.foo''\<rparr>, \<lparr>Name = ''main.bar''\<rparr>]\<rparr>"]
        selectIndex_clamps [of 1 example_ui
          "\<lparr>Output.Matches = [\<lparr>Name = ''main.foo''\<rparr>, \<lparr>Name = ''main.bar''\<rparr>]\<rparr>"]
  by (simp add: example_ui_def)

subsection \<open>Scroll offsets: the writes of main.go\<close>

text \<open>
  main.go keeps one offset per pane and writes them in NewUI (both 0) and in resetScroll
  (both 100000); layoutCode keeps each offset as \<^verbatim>\<open>MatchUIStyle.Layout\<close> leaves it.
\<close>

lemma resetScroll_MatchUI:
  "MatchUI (resetScroll ui) = (MatchUI ui)\<lparr>asm_scroll := 100000, src_scroll := 100000\<rparr>"
  by (simp add: resetScroll_def)

lemma selectIndex_MatchUI:
  assumes "selectIndex ui target = Inr ui1"
  shows "MatchUI ui1 = MatchUI ui
         \<or> MatchUI ui1 = (MatchUI ui)\<lparr>asm_scroll := 100000, src_scroll := 100000\<rparr>"
proof (cases "target < 0")
  case True
  with assms show ?thesis by (auto simp: selectIndex_def resetScroll_def Let_def)
next
  case False
  show ?thesis
  proof (cases "Output ui")
    case None
    with False assms show ?thesis by (simp add: selectIndex_def Let_def)
  next
    case (Some out)
    with False assms show ?thesis
      by (auto simp: selectIndex_def resetScroll_def Let_def split: if_splits)
  qed
qed

lemma openInNew_MatchUI: "openInNew ui gtx = Inr ui2 \<Longrightarrow> MatchUI ui2 = MatchUI ui"
  by (auto simp: openInNew_def Let_def split: if_splits option.splits)

lemma layoutCode_MatchUI:
  "layoutCode gui gtx ui match = Inr (dims, ui3) \<Longrightarrow>
     MatchUIStyle_Layout gui
       \<lparr>MatchUIStyle.Theme = Theme ui, Match = Selected ui, MatchUIState = MatchUI ui\<rparr>
       (pointee ui (Selected ui)) gtx = Inr (dims, MatchUI ui3)"
  by (auto simp: layoutCode_def Let_def split: sum.splits)

subsection \<open>The symbol list is never laid out\<close>

lemma Layout_symbols_const: "Layout_symbols gui = (\<lambda>gtx fr. Inr (Dimensions_zero, fr))"
  by (intro ext) (simp add: Layout_symbols_def stmt_then_def)

lemma layoutMatches_SymbolList:
  "layoutMatches (gui\<lparr>SymbolList_Layout := f\<rparr>) gtx ui = layoutMatches gui gtx ui"
  by (simp add: layoutMatches_def cong: option.case_cong)

lemma layoutCode_SymbolList:
  "layoutCode (gui\<lparr>SymbolList_Layout := f\<rparr>) gtx ui match = layoutCode gui gtx ui match"
  by (simp add: layoutCode_def)

lemma Layout_matches_SymbolList:
  "Layout_matches (gui\<lparr>SymbolList_Layout := f\<rparr>) = Layout_matches gui"
  by (intro ext) (simp add: Layout_matches_def layoutMatches_SymbolList)

lemma Layout_code_SymbolList:
  "Layout_code (gui\<lparr>SymbolList_Layout := f\<rparr>) = Layout_code gui"
  by (intro ext) (simp add: Layout_code_def layoutCode_SymbolList cong: if_cong)

text \<open>
  C10. The first child of the Flex returns the zero Dimensions and leaves the frame as it
  is, for every context and UI: its first statement returns, and the call of
  \<^verbatim>\<open>ui.Symbols.Layout\<close> after it is never reached. That call is the only one in Layout, so
  what Layout does is the same whatever \<^verbatim>\<open>SymbolList.Layout\<close> is: the symbol list that
  SetExe fills is never laid out.
\<close>

theorem Layout_never_renders_symbols:
  "Layout_symbols gui gtx fr = Inr (Dimensions_zero, fr)
   \<and> Layout (gui\<lparr>SymbolList_Layout := f\<rparr>) gtx fr = Layout gui gtx fr"
  by (simp add: Layout_def Layout_symbols_const Layout_matches_SymbolList Layout_code_SymbolList
           cong: sum.case_cong)

theorem Layout_never_renders_symbols_witness:
  "Layout_symbols (example_gui) example_gtx (example_ui, []) =
     Inr (Dimensions_zero, (example_ui, []))
   \<and> Layout ((example_gui)\<lparr>SymbolList_Layout :=
               (\<lambda>symbols theme gtx. (Dimensions_zero, []))\<rparr>)
        example_gtx (example_ui, [])
      = Layout (example_gui) example_gtx (example_ui, [])"
  using Layout_never_renders_symbols [of "example_gui" example_gtx "(example_ui, [])"
          "(\<lambda>symbols theme gtx. (Dimensions_zero, []))"]
  by simp

end
